theory Spec2Isabelle
  imports Main "HOL-Library.Sublist"
begin

section \<open>Go values, errors and results\<close>

text \<open>
  A Go \<^verbatim>\<open>interface{}\<close> value. The code under study only ever asks whether such a
  value is a string (the type assertion \<^verbatim>\<open>.(string)\<close>) or prints it; every other
  dynamic type (floats, maps, slices, functions, structs) is kept opaque in \<open>GoOther\<close>.
\<close>

datatype 'x any = GoNil | GoBool bool | GoInt int | GoString string | GoOther 'x

text \<open>
  A Go \<^verbatim>\<open>error\<close>. \<open>LibError\<close> is an error made by an external package and carries its
  message; \<open>Wrapf\<close> is \<^verbatim>\<open>errors.Wrapf(err, msg)\<close> of github.com/pkg/errors; \<open>Errorf\<close> is
  \<^verbatim>\<open>fmt.Errorf\<close> without \<^verbatim>\<open>%w\<close>, a new error that is only its message.
\<close>

datatype error = LibError string | Wrapf error string | Errorf string

fun Error :: "error \<Rightarrow> string" where
  "Error (LibError m) = m"
| "Error (Wrapf cause m) = m @ '': '' @ Error cause"
| "Error (Errorf m) = m"

text \<open>
  What a call of a function of type \<^verbatim>\<open>(T, error)\<close> does: it returns the pair, or it
  panics.
\<close>

datatype 'a outcome = Return 'a "error option" | Panic string

text \<open>What a call of a function with one result does: it returns the value, or it panics.\<close>

datatype 'a returned = Returned 'a | Panicked string

text \<open>\<^verbatim>\<open>reflect.Type\<close> is an interface: \<open>None\<close> is its nil value.\<close>

datatype reflect_Type = reflect_Type (TypeName: string)

section \<open>The heap of map objects\<close>

text \<open>
  A Go map is a reference to an object. \<open>members\<close> lists the (key, value) pairs of a map
  object in the order in which a \<^verbatim>\<open>range\<close> loop of this call visits them (Go leaves
  the order unspecified; every statement below holds for each order). A map reference
  is \<open>None\<close> for the nil map and \<open>Some a\<close> for the object at address \<open>a\<close>.
\<close>

type_synonym addr = nat
type_synonym 'x members = "(string \<times> 'x any) list"

record 'x heap =
  objs :: "addr \<Rightarrow> 'x members option"
  next_addr :: addr

definition range_map :: "'x heap \<Rightarrow> addr option \<Rightarrow> 'x members" where
  "range_map h r =
     (case r of None \<Rightarrow> []
      | Some a \<Rightarrow> (case objs h a of None \<Rightarrow> [] | Some m \<Rightarrow> m))"

text \<open>\<^verbatim>\<open>make(map[string]interface{})\<close>: a new, empty object at an unused address.\<close>

definition make_map :: "'x heap \<Rightarrow> addr \<times> 'x heap" where
  "make_map h =
     (next_addr h, h\<lparr>objs := (objs h)(next_addr h \<mapsto> []), next_addr := Suc (next_addr h)\<rparr>)"

definition store_members :: "'x heap \<Rightarrow> addr \<Rightarrow> 'x members \<Rightarrow> 'x heap" where
  "store_members h a m = h\<lparr>objs := (objs h)(a \<mapsto> m)\<rparr>"

section \<open>The external packages\<close>

text \<open>
  Template calls goja (the script runtime), text/template with the function table of
  flanksource/commons, encoding/json, antonmedv/expr and fmt. None of them is part of
  the repository; they are parameters of the model. A function that runs code of the
  caller's data, or that is handed the reference to the environment map, can write to
  the heap: it takes the heap and gives the heap it leaves.

  \<^item> \<open>goja_New\<close> is the runtime that \<^verbatim>\<open>goja.New()\<close> returns; \<open>vm_Set\<close> is \<^verbatim>\<open>vm.Set(k, v)\<close>,
    which stores the value in the runtime and returns an error or nil; \<open>vm_RunString\<close> is
    \<^verbatim>\<open>vm.RunString(src)\<close>, which runs the script on the heap (a script can write through
    the references that its globals hold); \<open>Export\<close> and \<open>ExportType\<close> are the methods of
    the \<^verbatim>\<open>goja.Value\<close> it returns.
  \<^item> \<open>tpl_Parse\<close> is \<^verbatim>\<open>gotemplate.New("").Funcs(text.GetTemplateFuncs()).Parse(body)\<close>;
    \<open>tpl_Execute\<close> is \<^verbatim>\<open>tpl.Execute(&buf, data)\<close> and gives what it wrote to the buffer
    together with its error or nil.
  \<^item> \<open>json_Marshal\<close> gives the pair that \<^verbatim>\<open>json.Marshal\<close> returns; \<open>json_Unmarshal\<close>
    decodes into a \<^verbatim>\<open>map[string]interface{}\<close>.
  \<^item> \<open>MakeExpressionOptions\<close> and \<open>MakeExpressionEnvs\<close> are the functions of these names
    of flanksource/commons. Template passes them \<^verbatim>\<open>environment\<close> itself, the reference to
    the caller's map, so they can write to that map, and they can panic (as a write to
    a nil map does). \<open>expr_Compile\<close> is \<^verbatim>\<open>expr.Compile\<close>; \<open>expr_Run\<close> is \<^verbatim>\<open>expr.Run\<close>, which
    evaluates the program on the heap.
  \<^item> \<open>fmt_other\<close> is \<^verbatim>\<open>fmt.Sprint\<close> on the values that \<open>GoOther\<close> keeps opaque.
\<close>

record ('x, 'vm, 'jv, 'tpl, 'prog, 'opt, 'eenv) engines =
  goja_New :: "'vm"
  vm_Set :: "'vm \<Rightarrow> string \<Rightarrow> 'x any \<Rightarrow> 'vm \<times> error option"
  vm_RunString :: "'x heap \<Rightarrow> 'vm \<Rightarrow> string \<Rightarrow> (error + 'jv) \<times> 'x heap"
  Export :: "'jv \<Rightarrow> 'x any"
  ExportType :: "'jv \<Rightarrow> reflect_Type option"
  tpl_Parse :: "string \<Rightarrow> error + 'tpl"
  json_Marshal :: "'x members \<Rightarrow> string \<times> error option"
  json_Unmarshal :: "string \<Rightarrow> error + 'x members"
  tpl_Execute :: "'tpl \<Rightarrow> 'x members \<Rightarrow> string \<times> error option"
  MakeExpressionOptions :: "'x heap \<Rightarrow> addr option \<Rightarrow> 'opt list returned \<times> 'x heap"
  expr_Compile :: "string \<Rightarrow> 'opt list \<Rightarrow> error + 'prog"
  MakeExpressionEnvs :: "'x heap \<Rightarrow> addr option \<Rightarrow> 'eenv returned \<times> 'x heap"
  expr_Run :: "'x heap \<Rightarrow> 'prog \<Rightarrow> 'eenv \<Rightarrow> (error + 'x any) \<times> 'x heap"
  fmt_other :: "'x \<Rightarrow> string"

section \<open>Standard library functions used by Template\<close>

text \<open>Decimal digits of a natural number, as \<^verbatim>\<open>%d\<close> prints them.\<close>

fun digits :: "nat \<Rightarrow> string" where
  "digits n =
     (if n < 10 then [char_of (48 + n)]
      else digits (n div 10) @ [char_of (48 + n mod 10)])"

declare digits.simps [simp del]

text \<open>\<^verbatim>\<open>fmt.Sprint(v)\<close> with one operand: the default format \<^verbatim>\<open>%v\<close>.\<close>

definition Sprint :: "('x \<Rightarrow> string) \<Rightarrow> 'x any \<Rightarrow> string" where
  "Sprint other v =
     (case v of
        GoNil \<Rightarrow> ''<nil>''
      | GoBool b \<Rightarrow> (if b then ''true'' else ''false'')
      | GoInt i \<Rightarrow> (if i < 0 then CHR ''-'' # digits (nat (- i)) else digits (nat i))
      | GoString s \<Rightarrow> s
      | GoOther x \<Rightarrow> other x)"

text \<open>\<^verbatim>\<open>strings.Split(s, "\n")\<close>: the lines of \<open>s\<close>; never the empty slice.\<close>

fun Split_newline :: "string \<Rightarrow> string list" where
  "Split_newline [] = [[]]"
| "Split_newline (c # cs) =
     (if c = CHR 0x0A then [] # Split_newline cs
      else (case Split_newline cs of
              [] \<Rightarrow> [[c]]
            | l # ls \<Rightarrow> (c # l) # ls))"

text \<open>
  \<^verbatim>\<open>strings.TrimSpace\<close> removes the leading and the trailing white space of a string, as
  Unicode defines it (\<^verbatim>\<open>unicode.IsSpace\<close>). A Go string is a sequence of bytes holding
  UTF-8; \<open>space_runes\<close> lists the encodings of the white space code points: the six
  ASCII ones, U+0085, U+00A0, U+1680, U+2000 to U+200A, U+2028, U+2029, U+202F, U+205F
  and U+3000. A byte sequence that is not one of these encodings is no white space
  (bytes that are not UTF-8 decode to U+FFFD).
\<close>

definition space_runes :: "string list" where
  "space_runes =
     [[CHR 0x09], [CHR 0x0A], [CHR 0x0B], [CHR 0x0C], [CHR 0x0D], [CHR 0x20],
      [CHR 0xC2, CHR 0x85], [CHR 0xC2, CHR 0xA0], [CHR 0xE1, CHR 0x9A, CHR 0x80],
      [CHR 0xE2, CHR 0x80, CHR 0x80], [CHR 0xE2, CHR 0x80, CHR 0x81],
      [CHR 0xE2, CHR 0x80, CHR 0x82], [CHR 0xE2, CHR 0x80, CHR 0x83],
      [CHR 0xE2, CHR 0x80, CHR 0x84], [CHR 0xE2, CHR 0x80, CHR 0x85],
      [CHR 0xE2, CHR 0x80, CHR 0x86], [CHR 0xE2, CHR 0x80, CHR 0x87],
      [CHR 0xE2, CHR 0x80, CHR 0x88], [CHR 0xE2, CHR 0x80, CHR 0x89],
      [CHR 0xE2, CHR 0x80, CHR 0x8A], [CHR 0xE2, CHR 0x80, CHR 0xA8],
      [CHR 0xE2, CHR 0x80, CHR 0xA9], [CHR 0xE2, CHR 0x80, CHR 0xAF],
      [CHR 0xE2, CHR 0x81, CHR 0x9F], [CHR 0xE3, CHR 0x80, CHR 0x80]]"

text \<open>The length of the white space rune that \<open>s\<close> starts with, 0 when it starts with none.\<close>

definition leading_space :: "string list \<Rightarrow> string \<Rightarrow> nat" where
  "leading_space runes s =
     (case find (\<lambda>w. prefix w s) runes of None \<Rightarrow> 0 | Some w \<Rightarrow> length w)"

function trim_leading :: "string list \<Rightarrow> string \<Rightarrow> string" where
  "trim_leading runes s =
     (if leading_space runes s = 0 then s
      else trim_leading runes (drop (leading_space runes s) s))"
  by pat_completeness auto
termination
proof (relation "measure (\<lambda>(runes, s). length s)")
  fix runes :: "string list" and s :: string
  assume pos: "leading_space runes s \<noteq> 0"
  have "leading_space runes s \<le> length s"
    by (auto simp: leading_space_def find_Some_iff prefix_def split: option.splits)
  with pos show "((runes, drop (leading_space runes s) s), (runes, s))
                   \<in> measure (\<lambda>(runes, s). length s)"
    by simp
qed simp

declare trim_leading.simps [simp del]

definition TrimSpace :: "string \<Rightarrow> string" where
  "TrimSpace s =
     rev (trim_leading (map rev space_runes) (rev (trim_leading space_runes s)))"

section \<open>utils/templating/template.go\<close>

text \<open>\<^verbatim>\<open>v1.Template\<close>: the three fields that Template reads.\<close>

record v1_Template =
  Javascript :: string
  Template_field :: string
  Expression :: string

text \<open>
  The loop \<^verbatim>\<open>for k, v := range environment\<close> of the script branch: it sets each member
  as a global of the runtime and leaves Template at the first failure.
\<close>

fun range_Set ::
  "('x, 'vm, 'jv, 'tpl, 'prog, 'opt, 'eenv) engines \<Rightarrow> 'vm \<Rightarrow> 'x members \<Rightarrow> error + 'vm"
where
  "range_Set L vm [] = Inr vm"
| "range_Set L vm ((k, v) # rest) =
     (case vm_Set L vm k v of
        (vm', Some err) \<Rightarrow> Inl (Wrapf err (''error setting '' @ k))
      | (vm', None) \<Rightarrow> range_Set L vm' rest)"

definition Template ::
  "('x, 'vm, 'jv, 'tpl, 'prog, 'opt, 'eenv) engines \<Rightarrow> 'x heap \<Rightarrow> addr option \<Rightarrow>
   v1_Template \<Rightarrow> string outcome \<times> 'x heap"
where
  "Template L h environment template =
     (if Javascript template \<noteq> [] then
        (case range_Set L (goja_New L) (range_map h environment) of
           Inl err \<Rightarrow> (Return [] (Some err), h)
         | Inr vm \<Rightarrow>
             (case vm_RunString L h vm (Javascript template) of
                (Inl err, h1) \<Rightarrow>
                  (Return [] (Some (Wrapf err ''failed to run javascript'')), h1)
              | (Inr vmOut, h1) \<Rightarrow>
                  (case Export L vmOut of
                     GoString s \<Rightarrow> (Return s None, h1)
                   | _ \<Rightarrow>
                       (case ExportType L vmOut of
                          None \<Rightarrow> (Panic ''invalid memory address or nil pointer dereference'', h1)
                        | Some ty \<Rightarrow>
                            (Return []
                               (Some (Errorf (''failed to cast output to string; it is of type ''
                                              @ TypeName ty))), h1)))))
      else if Template_field template \<noteq> [] then
        (case tpl_Parse L (Template_field template) of
           Inl err \<Rightarrow> (Return [] (Some err), h)
         | Inr tpl \<Rightarrow>
             (let data = fst (json_Marshal L (range_map h environment));
                  (unstructured, h1) = make_map h
              in case json_Unmarshal L data of
                   Inl err \<Rightarrow> (Return [] (Some err), h1)
                 | Inr decoded \<Rightarrow>
                     (let h2 = store_members h1 unstructured decoded;
                          (buf, exec_err) = tpl_Execute L tpl (range_map h2 (Some unstructured))
                      in case exec_err of
                           Some err \<Rightarrow>
                             (case Split_newline (Template_field template) of
                                [] \<Rightarrow> (Panic ''index out of range'', h2)
                              | line # _ \<Rightarrow>
                                  (Return []
                                     (Some (Errorf (''error executing template '' @ line @ '': ''
                                                    @ Error err))), h2))
                         | None \<Rightarrow> (Return (TrimSpace buf) None, h2))))
      else if Expression template \<noteq> [] then
        (case MakeExpressionOptions L h environment of
           (Panicked p, h1) \<Rightarrow> (Panic p, h1)
         | (Returned opts, h1) \<Rightarrow>
             (case expr_Compile L (Expression template) opts of
                Inl err \<Rightarrow> (Return [] (Some err), h1)
              | Inr program \<Rightarrow>
                  (case MakeExpressionEnvs L h1 environment of
                     (Panicked p, h2) \<Rightarrow> (Panic p, h2)
                   | (Returned envs, h2) \<Rightarrow>
                       (case expr_Run L h2 program envs of
                          (Inl err, h3) \<Rightarrow> (Return [] (Some err), h3)
                        | (Inr output, h3) \<Rightarrow>
                            (Return (Sprint (fmt_other L) output) None, h3)))))
      else (Return [] None, h))"

section \<open>scrapers/aws/cost.go\<close>

text \<open>
  \<^verbatim>\<open>strings.ReplaceAll(s, old, new)\<close> for a non-empty \<open>old\<close> (FetchCosts replaces
  \<^verbatim>\<open>$table\<close>): the occurrences of \<open>old\<close> are replaced from the left and do not overlap.
\<close>

fun ReplaceAll :: "string \<Rightarrow> string \<Rightarrow> string \<Rightarrow> string" where
  "ReplaceAll [] old new = []"
| "ReplaceAll (c # cs) old new =
     (if old \<noteq> [] \<and> prefix old (c # cs)
      then new @ ReplaceAll (drop (length old - 1) cs) old new
      else c # ReplaceAll cs old new)"

definition costQueryTemplate :: string where
  "costQueryTemplate =
     CHR 0x0A # concat (map (\<lambda>l. l @ [CHR 0x0A])
       [''    WITH'',
        ''        max_end_date AS ('',
        ''            SELECT MAX(line_item_usage_end_date) as end_date FROM $table'',
        ''            WHERE line_item_resource_id = @id AND line_item_product_code = @product_code'',
        ''        ),'',
        ''        results AS ('',
        ''            SELECT line_item_unblended_cost, line_item_usage_start_date FROM $table'',
        ''            WHERE line_item_resource_id = @id AND line_item_product_code = @product_code'',
        ''        )'',
        ''    SELECT'',
        ''        SUM(CASE WHEN line_item_usage_start_date >= (SELECT date_add('hour', -1, end_date) FROM max_end_date) THEN line_item_unblended_cost'',
        ''            ELSE 0 END) as hourly,'',
        ''        SUM(CASE WHEN line_item_usage_start_date >= (SELECT date_add('day', -1, end_date) FROM max_end_date) THEN line_item_unblended_cost'',
        ''            ELSE 0 END) as daily,'',
        ''        SUM(CASE WHEN line_item_usage_start_date >= (SELECT date_add('day', -7, end_date) FROM max_end_date) THEN line_item_unblended_cost'',
        ''            ELSE 0 END) as weekly,'',
        ''        SUM(CASE WHEN line_item_usage_start_date >= (SELECT date_add('day', -30, end_date) FROM max_end_date) THEN line_item_unblended_cost'',
        ''            ELSE 0 END) as monthly'',
        ''    FROM results''])"

text \<open>
  \<^verbatim>\<open>models.ConfigItem\<close> and \<^verbatim>\<open>v1.AWS\<close> are declared outside the two files; these are the
  fields that cost.go reads. A pointer field is an option, \<open>None\<close> for nil.
\<close>

record ConfigItem =
  ID :: string
  ExternalType :: "string option"
  ExternalID :: "string list"
  Name :: "string option"
  Config :: "string option"
  Region :: "string option"
  Account :: "string option"

record CostReporting =
  S3BucketPath :: string
  CostReporting_Region :: string
  Database :: string
  Table :: string

record 'conn AWS =
  AWSConnection :: "'conn option"
  CostReporting :: CostReporting

record productAttributes =
  ResourceID :: string
  ProductCode :: string

text \<open>The four fields are \<^verbatim>\<open>float64\<close>; only their zero value and copying are used.\<close>

record 'f periodicCosts =
  Hourly :: 'f
  Daily :: 'f
  Weekly :: 'f
  Monthly :: 'f

text \<open>
  What cost.go takes from outside the two files: the resource type constants of
  \<^verbatim>\<open>api/v1\<close>, \<^verbatim>\<open>json.Unmarshal\<close> into a \<^verbatim>\<open>map[string]interface{}\<close>, the repository's
  \<^verbatim>\<open>getAccessAndSecretKey\<close>, the athena driver (\<^verbatim>\<open>NewDefaultConfig\<close>, \<^verbatim>\<open>Stringify\<close>,
  \<^verbatim>\<open>DriverName\<close>) and database/sql. \<open>QueryRow_Scan db query args dest\<close> is
  \<^verbatim>\<open>db.QueryRow(query, args...).Scan(&dest.Hourly, ...)\<close>: it gives \<open>dest\<close> as the scan left
  it, and the error or nil.
\<close>

record ('x, 'ctx, 'conn, 'conf, 'db, 'f) cost_deps =
  AWSEC2Instance :: string
  AWSEKSCluster :: string
  AWSS3Bucket :: string
  AWSLoadBalancer :: string
  AWSLoadBalancerV2 :: string
  AWSEBSVolume :: string
  AWSRDSInstance :: string
  json_Unmarshal_map :: "string \<Rightarrow> error + 'x members"
  getAccessAndSecretKey :: "'ctx \<Rightarrow> 'conn \<Rightarrow> string \<times> string \<times> error option"
  athena_NewDefaultConfig :: "string \<Rightarrow> string \<Rightarrow> string \<Rightarrow> string \<Rightarrow> 'conf option \<times> error option"
  Stringify :: "'conf \<Rightarrow> string"
  athena_DriverName :: string
  sql_Open :: "string \<Rightarrow> string \<Rightarrow> error + 'db"
  QueryRow_Scan ::
    "'db \<Rightarrow> string \<Rightarrow> (string \<times> string) list \<Rightarrow> 'f periodicCosts \<Rightarrow> 'f periodicCosts \<times> error option"

definition nil_dereference :: string where
  "nil_dereference = ''invalid memory address or nil pointer dereference''"

definition getJSONKey ::
  "('x, 'ctx, 'conn, 'conf, 'db, 'f) cost_deps \<Rightarrow> string \<Rightarrow> string \<Rightarrow> 'x any \<times> error option"
where
  "getJSONKey D body key =
     (case json_Unmarshal_map D body of
        Inl err \<Rightarrow> (GoNil, Some err)
      | Inr j \<Rightarrow> ((case map_of j key of None \<Rightarrow> GoNil | Some v \<Rightarrow> v), None))"

text \<open>
  The \<^verbatim>\<open>switch\<close> on \<^verbatim>\<open>*ci.ExternalType\<close> takes the first case that is equal and has no
  default. Dereferencing a nil pointer, asserting a non-string to be a string and
  indexing an empty slice panic.
\<close>

definition getProductAttributes ::
  "('x, 'ctx, 'conn, 'conf, 'db, 'f) cost_deps \<Rightarrow> ConfigItem \<Rightarrow> productAttributes outcome"
where
  "getProductAttributes D ci =
     (case ExternalType ci of
        None \<Rightarrow> Panic nil_dereference
      | Some ty \<Rightarrow>
          if ty = AWSEC2Instance D then
            (case Name ci of None \<Rightarrow> Panic nil_dereference
             | Some n \<Rightarrow> Return \<lparr>ResourceID = n, ProductCode = ''AmazonEC2''\<rparr> None)
          else if ty = AWSEKSCluster D then
            (case Config ci of None \<Rightarrow> Panic nil_dereference
             | Some body \<Rightarrow>
                 (case getJSONKey D body ''arn'' of
                    (arn, Some err) \<Rightarrow> Return \<lparr>ResourceID = [], ProductCode = []\<rparr> (Some err)
                  | (arn, None) \<Rightarrow>
                      (case arn of
                         GoString s \<Rightarrow> Return \<lparr>ResourceID = s, ProductCode = ''AmazonEKS''\<rparr> None
                       | _ \<Rightarrow> Panic ''interface conversion: interface {} is not string'')))
          else if ty = AWSS3Bucket D then
            (case Name ci of None \<Rightarrow> Panic nil_dereference
             | Some n \<Rightarrow> Return \<lparr>ResourceID = n, ProductCode = ''AmazonS3''\<rparr> None)
          else if ty = AWSLoadBalancer D then
            (case (Region ci, Account ci, Name ci) of
               (Some r, Some a, Some n) \<Rightarrow>
                 Return \<lparr>ResourceID = ''arn:aws:elasticloadbalancing:'' @ r @ '':'' @ a
                                        @ '':loadbalancer/'' @ n,
                         ProductCode = ''AWSELB''\<rparr> None
             | _ \<Rightarrow> Panic nil_dereference)
          else if ty = AWSLoadBalancerV2 D then
            (case ExternalID ci of [] \<Rightarrow> Panic ''index out of range [0] with length 0''
             | e # _ \<Rightarrow> Return \<lparr>ResourceID = e, ProductCode = ''AWSELBV2''\<rparr> None)
          else if ty = AWSEBSVolume D then
            (case Name ci of None \<Rightarrow> Panic nil_dereference
             | Some n \<Rightarrow> Return \<lparr>ResourceID = n, ProductCode = ''AmazonEC2''\<rparr> None)
          else if ty = AWSRDSInstance D then
            (case ExternalID ci of [] \<Rightarrow> Panic ''index out of range [0] with length 0''
             | e # _ \<Rightarrow> Return \<lparr>ResourceID = e, ProductCode = ''AmazonRDS''\<rparr> None)
          else Return \<lparr>ResourceID = [], ProductCode = []\<rparr> None)"

definition getAWSAthenaConfig ::
  "('x, 'ctx, 'conn, 'conf, 'db, 'f) cost_deps \<Rightarrow> 'ctx \<Rightarrow> 'conn AWS \<Rightarrow> 'conf option outcome"
where
  "getAWSAthenaConfig D ctx awsConfig =
     (case AWSConnection awsConfig of
        None \<Rightarrow> Panic nil_dereference
      | Some conn \<Rightarrow>
          (case getAccessAndSecretKey D ctx conn of
             (accessKey, secretKey, Some err) \<Rightarrow> Return None (Some err)
           | (accessKey, secretKey, None) \<Rightarrow>
               (case athena_NewDefaultConfig D (S3BucketPath (CostReporting awsConfig))
                       (CostReporting_Region (CostReporting awsConfig)) accessKey secretKey of
                  (conf, err) \<Rightarrow> Return conf err)))"

text \<open>\<^verbatim>\<open>periodicCosts{}\<close>, the zero value.\<close>

definition zero_costs :: "'f::zero periodicCosts" where
  "zero_costs = \<lparr>Hourly = 0, Daily = 0, Weekly = 0, Monthly = 0\<rparr>"

definition FetchCosts ::
  "('x, 'ctx, 'conn, 'conf, 'db, 'f::zero) cost_deps \<Rightarrow> 'ctx \<Rightarrow> 'conn AWS \<Rightarrow> ConfigItem \<Rightarrow>
   'f periodicCosts outcome"
where
  "FetchCosts D ctx config ci =
     (case getProductAttributes D ci of
        Panic p \<Rightarrow> Panic p
      | Return attrs (Some err) \<Rightarrow> Return zero_costs (Some err)
      | Return attrs None \<Rightarrow>
          (case getAWSAthenaConfig D ctx config of
             Panic p \<Rightarrow> Panic p
           | Return athenaConf (Some err) \<Rightarrow> Return zero_costs (Some err)
           | Return None None \<Rightarrow> Panic nil_dereference
           | Return (Some athenaConf) None \<Rightarrow>
               (case sql_Open D (athena_DriverName D) (Stringify D athenaConf) of
                  Inl err \<Rightarrow> Return zero_costs (Some err)
                | Inr athenaDB \<Rightarrow>
                    (let table = Database (CostReporting config) @ ''.''
                                 @ Table (CostReporting config);
                         query = ReplaceAll costQueryTemplate ''$table'' table;
                         queryArgs = [(''id'', ResourceID attrs),
                                      (''product_code'', ProductCode attrs)];
                         (costs, err) = QueryRow_Scan D athenaDB query queryArgs zero_costs
                     in case err of
                          Some e \<Rightarrow> Return zero_costs None
                        | None \<Rightarrow> Return costs None))))"

section \<open>An instance of the external packages\<close>

text \<open>
  The theorems below hold for every choice of the external packages. To apply them to
  concrete inputs, this section fixes one small choice: stand-ins that answer the inputs
  of the examples the way the real packages do. Scripts are \<^verbatim>\<open>null\<close>, the name of a
  global, or \<^verbatim>\<open>inner.touched = 1\<close>; templates are the bodies used in the examples;
  expressions are \<^verbatim>\<open>a + b\<close> or the name of a variable. The opaque values are a channel,
  an object, a function and a map, given by the address of its object.
\<close>

datatype demo_x = Chan | Object | Func | MapAt addr

datatype js_value = JsNull | JsString string | JsInt int | JsObject

definition demo_Set ::
  "demo_x members \<Rightarrow> string \<Rightarrow> demo_x any \<Rightarrow> demo_x members \<times> error option" where
  "demo_Set vm k v =
     (if v = GoOther Chan then (vm, Some (LibError ''unsupported value''))
      else ((k, v) # vm, None))"

text \<open>
  goja binds a Go map as an object that writes through to the map: the script
  \<^verbatim>\<open>inner.touched = 1\<close> adds a member to the map that the global \<^verbatim>\<open>inner\<close> refers to.
\<close>

definition demo_RunString ::
  "demo_x heap \<Rightarrow> demo_x members \<Rightarrow> string \<Rightarrow> (error + js_value) \<times> demo_x heap" where
  "demo_RunString h vm src =
     (if src = ''null'' then (Inr JsNull, h)
      else if src = ''inner.touched = 1'' then
        (case map_of vm ''inner'' of
           Some (GoOther (MapAt a)) \<Rightarrow>
             (Inr (JsInt 1),
              store_members h a
                (filter (\<lambda>(k, v). k \<noteq> ''touched'') (range_map h (Some a))
                 @ [(''touched'', GoInt 1)]))
         | _ \<Rightarrow> (Inl (LibError ''TypeError: Cannot set property touched''), h))
      else (case map_of vm src of
              None \<Rightarrow> (Inl (LibError (''ReferenceError: '' @ src @ '' is not defined'')), h)
            | Some (GoString s) \<Rightarrow> (Inr (JsString s), h)
            | Some (GoInt i) \<Rightarrow> (Inr (JsInt i), h)
            | Some _ \<Rightarrow> (Inr JsObject, h)))"

definition demo_Export :: "js_value \<Rightarrow> demo_x any" where
  "demo_Export v =
     (case v of JsNull \<Rightarrow> GoNil | JsString s \<Rightarrow> GoString s | JsInt i \<Rightarrow> GoInt i
      | JsObject \<Rightarrow> GoOther Object)"

text \<open>
  goja gives \<^verbatim>\<open>reflect.TypeOf(nil)\<close>, the nil \<^verbatim>\<open>reflect.Type\<close>, as the export type of
  \<^verbatim>\<open>null\<close> and \<^verbatim>\<open>undefined\<close>, \<^verbatim>\<open>int64\<close> for an integer and the unnamed type
  \<^verbatim>\<open>map[string]interface{}\<close> for an object.
\<close>

definition demo_ExportType :: "js_value \<Rightarrow> reflect_Type option" where
  "demo_ExportType v =
     (case v of JsNull \<Rightarrow> None | JsString s \<Rightarrow> Some (reflect_Type ''string'')
      | JsInt i \<Rightarrow> Some (reflect_Type ''int64'') | JsObject \<Rightarrow> Some (reflect_Type []))"

definition demo_Parse :: "string \<Rightarrow> error + string" where
  "demo_Parse body =
     (if body = ''{{'' then Inl (LibError ''template: :1: unclosed action'') else Inr body)"

definition Ann_json :: string where
  "Ann_json = ''{'' @ [CHR 0x22] @ ''name'' @ [CHR 0x22] @ '':'' @ [CHR 0x22] @ ''Ann''
              @ [CHR 0x22] @ ''}''"

definition demo_Marshal :: "demo_x members \<Rightarrow> string \<times> error option" where
  "demo_Marshal m =
     (if GoOther Chan \<in> snd ` set m then ([], Some (LibError ''json: unsupported type: chan int''))
      else if m = [(''name'', GoString ''Ann'')] then (Ann_json, None)
      else (''{}'', None))"

definition demo_Unmarshal :: "string \<Rightarrow> error + demo_x members" where
  "demo_Unmarshal data =
     (if data = [] then Inl (LibError ''unexpected end of JSON input'')
      else if data = Ann_json then Inr [(''name'', GoString ''Ann'')]
      else if data = ''{}'' then Inr []
      else Inl (LibError ''invalid character''))"

definition hello_body :: string where
  "hello_body = ''  Hello {{.name}}  '' @ [CHR 0x0A]"

definition demo_Execute :: "string \<Rightarrow> demo_x members \<Rightarrow> string \<times> error option" where
  "demo_Execute tpl data =
     (if tpl = hello_body then
        (case map_of data ''name'' of
           Some (GoString s) \<Rightarrow> (''  Hello '' @ s @ ''  '' @ [CHR 0x0A], None)
         | _ \<Rightarrow> (''  Hello <no value>  '' @ [CHR 0x0A], None))
      else if tpl = ''Hi {{.name.first}}'' then
        (''Hi '', Some (LibError ''can not evaluate field first in type interface {}''))
      else (tpl, None))"

definition demo_Compile :: "string \<Rightarrow> unit list \<Rightarrow> error + string" where
  "demo_Compile src opts =
     (if src = ''a +'' then Inl (LibError ''unexpected token EOF'') else Inr src)"

text \<open>
  The two helpers of flanksource/commons put the template functions into the map they
  are given; \<^verbatim>\<open>Now\<close> stands for the function table here. Writing to a nil map panics.
\<close>

definition demo_add_funcs :: "demo_x heap \<Rightarrow> addr option \<Rightarrow> demo_x members returned \<times> demo_x heap"
where
  "demo_add_funcs h r =
     (case r of
        None \<Rightarrow> (Panicked ''assignment to entry in nil map'', h)
      | Some a \<Rightarrow>
          (let m = filter (\<lambda>(k, v). k \<noteq> ''Now'') (range_map h r) @ [(''Now'', GoOther Func)]
           in (Returned m, store_members h a m)))"

definition demo_MakeExpressionOptions ::
  "demo_x heap \<Rightarrow> addr option \<Rightarrow> unit list returned \<times> demo_x heap" where
  "demo_MakeExpressionOptions h r =
     (case demo_add_funcs h r of
        (Panicked p, h1) \<Rightarrow> (Panicked p, h1)
      | (Returned m, h1) \<Rightarrow> (Returned [], h1))"

definition demo_Run ::
  "demo_x heap \<Rightarrow> string \<Rightarrow> demo_x members \<Rightarrow> (error + demo_x any) \<times> demo_x heap" where
  "demo_Run h program env =
     (if program = ''a + b'' then
        (case (map_of env ''a'', map_of env ''b'') of
           (Some (GoInt a), Some (GoInt b)) \<Rightarrow> (Inr (GoInt (a + b)), h)
         | _ \<Rightarrow> (Inl (LibError ''invalid operation: +''), h))
      else (case map_of env program of
              None \<Rightarrow> (Inl (LibError (''undefined: '' @ program)), h)
            | Some v \<Rightarrow> (Inr v, h)))"

definition demo_other :: "demo_x \<Rightarrow> string" where
  "demo_other x =
     (case x of Chan \<Rightarrow> ''0xc000010000'' | Object \<Rightarrow> ''map[]'' | Func \<Rightarrow> ''0x4a5b20''
      | MapAt a \<Rightarrow> ''map[]'')"

definition demo ::
  "(demo_x, demo_x members, js_value, string, string, unit, demo_x members) engines" where
  "demo =
     \<lparr>goja_New = [], vm_Set = demo_Set, vm_RunString = demo_RunString,
      Export = demo_Export, ExportType = demo_ExportType, tpl_Parse = demo_Parse,
      json_Marshal = demo_Marshal, json_Unmarshal = demo_Unmarshal,
      tpl_Execute = demo_Execute, MakeExpressionOptions = demo_MakeExpressionOptions,
      expr_Compile = demo_Compile, MakeExpressionEnvs = demo_add_funcs, expr_Run = demo_Run,
      fmt_other = demo_other\<rparr>"

text \<open>A heap with one map object at address 0, the environment of the examples.\<close>

definition heap_of :: "demo_x members \<Rightarrow> demo_x heap" where
  "heap_of m = \<lparr>objs = (\<lambda>a. None)(0 \<mapsto> m), next_addr = 1\<rparr>"

text \<open>Stand-ins for what cost.go takes from outside.\<close>

definition demo_Scan ::
  "unit \<Rightarrow> string \<Rightarrow> (string \<times> string) list \<Rightarrow> int periodicCosts \<Rightarrow> int periodicCosts \<times> error option"
where
  "demo_Scan db query args dest =
     (if (''id'', ''i-0bad'') \<in> set args
      then (dest\<lparr>Hourly := 7\<rparr>, Some (LibError ''sql: Scan error on column index 1''))
      else (\<lparr>Hourly = 1, Daily = 2, Weekly = 3, Monthly = 4\<rparr>, None))"

definition demo_deps :: "(demo_x, unit, unit, string, unit, int) cost_deps" where
  "demo_deps =
     \<lparr>AWSEC2Instance = ''AWS::EC2::Instance'', AWSEKSCluster = ''AWS::EKS::Cluster'',
      AWSS3Bucket = ''AWS::S3::Bucket'',
      AWSLoadBalancer = ''AWS::ElasticLoadBalancing::LoadBalancer'',
      AWSLoadBalancerV2 = ''AWS::ElasticLoadBalancingV2::LoadBalancer'',
      AWSEBSVolume = ''AWS::EBS::Volume'', AWSRDSInstance = ''AWS::RDS::DBInstance'',
      json_Unmarshal_map = (\<lambda>body. Inl (LibError ''unexpected end of JSON input'')),
      getAccessAndSecretKey = (\<lambda>ctx conn. (''AKIA'', ''secret'', None)),
      athena_NewDefaultConfig = (\<lambda>bucket region key secret. (Some bucket, None)),
      Stringify = (\<lambda>conf. conf), athena_DriverName = ''awsathena'',
      sql_Open = (\<lambda>driver dsn. Inr ()), QueryRow_Scan = demo_Scan\<rparr>"

definition demo_aws :: "unit AWS" where
  "demo_aws =
     \<lparr>AWSConnection = Some (),
      CostReporting = \<lparr>S3BucketPath = ''s3://bucket/out'', CostReporting_Region = ''eu-west-1'',
                       Database = ''billing'', Table = ''cur''\<rparr>\<rparr>"

definition demo_item :: "string \<Rightarrow> ConfigItem" where
  "demo_item name =
     \<lparr>ID = ''1'', ExternalType = Some ''AWS::EC2::Instance'', ExternalID = [name],
      Name = Some name, Config = None, Region = None, Account = None\<rparr>"

section \<open>Properties of Template\<close>

subsection \<open>Auxiliary facts\<close>

text \<open>The binding loop does not run the script, and it runs through a list part by part.\<close>

lemma range_Set_RunString [simp]:
  "range_Set (L\<lparr>vm_RunString := run\<rparr>) vm xs = range_Set L vm xs"
  by (induction xs arbitrary: vm) (auto split: prod.splits option.splits)


text \<open>
  What \<open>trim_leading\<close> returns starts with none of the runes, and what it removed is a
  sequence of runes.
\<close>

lemma trim_leading_no_space:
  assumes "[] \<notin> set runes"
  shows "\<forall>w\<in>set runes. \<not> prefix w (trim_leading runes s)"
  using assms
proof (induction runes s rule: trim_leading.induct)
  case (1 runes s)
  show ?case
  proof (cases "leading_space runes s = 0")
    case True
    have "find (\<lambda>w. prefix w s) runes = None"
    proof (cases "find (\<lambda>w. prefix w s) runes")
      case (Some w)
      then have "w \<in> set runes" by (auto simp: find_Some_iff)
      with "1.prems" have "w \<noteq> []" by auto
      with True Some show ?thesis by (simp add: leading_space_def)
    qed simp
    then have "\<forall>w\<in>set runes. \<not> prefix w s" by (simp add: find_None_iff)
    with True show ?thesis by (simp add: trim_leading.simps [of runes s])
  next
    case False
    with "1.IH" "1.prems" show ?thesis by (simp add: trim_leading.simps [of runes s])
  qed
qed

lemma trim_leading_removes:
  "\<exists>ws. set ws \<subseteq> set runes \<and> s = concat ws @ trim_leading runes s"
proof (induction runes s rule: trim_leading.induct)
  case (1 runes s)
  show ?case
  proof (cases "leading_space runes s = 0")
    case True
    then have "set [] \<subseteq> set runes \<and> s = concat [] @ trim_leading runes s"
      by (simp add: trim_leading.simps [of runes s])
    then show ?thesis by blast
  next
    case False
    then obtain w where w: "find (\<lambda>w. prefix w s) runes = Some w"
      by (auto simp: leading_space_def split: option.splits)
    then have mem: "w \<in> set runes" and pre: "prefix w s"
      by (auto simp: find_Some_iff)
    from w have len: "leading_space runes s = length w" by (simp add: leading_space_def)
    from pre have s: "s = w @ drop (length w) s" by (auto simp: prefix_def)
    from "1.IH" [OF False] obtain ws where ws: "set ws \<subseteq> set runes"
      and rest: "drop (length w) s = concat ws @ trim_leading runes (drop (length w) s)"
      using len by auto
    have "trim_leading runes s = trim_leading runes (drop (length w) s)"
      using False len by (simp add: trim_leading.simps [of runes s])
    with s rest have "s = concat (w # ws) @ trim_leading runes s" by simp
    moreover from mem ws have "set (w # ws) \<subseteq> set runes" by simp
    ultimately show ?thesis by blast
  qed
qed

lemma TrimSpace_trimmed:
  "(\<exists>ls rs. set ls \<subseteq> set space_runes \<and> set rs \<subseteq> set space_runes \<and>
            buf = concat ls @ TrimSpace buf @ concat rs) \<and>
   (\<forall>w\<in>set space_runes. \<not> prefix w (TrimSpace buf) \<and> \<not> suffix w (TrimSpace buf))"
proof -
  define x where "x = trim_leading space_runes buf"
  define y where "y = trim_leading (map rev space_runes) (rev x)"
  have T: "TrimSpace buf = rev y" by (simp add: TrimSpace_def x_def y_def)
  have ne: "[] \<notin> set space_runes" by (simp add: space_runes_def)
  then have ne': "[] \<notin> set (map rev space_runes)" by auto
  obtain ls where ls: "set ls \<subseteq> set space_runes" and buf: "buf = concat ls @ x"
    using trim_leading_removes [of space_runes buf] unfolding x_def by blast
  obtain ws where ws: "set ws \<subseteq> set (map rev space_runes)" and rx: "rev x = concat ws @ y"
    using trim_leading_removes [of "map rev space_runes" "rev x"] unfolding y_def by blast
  from rx have "x = rev (concat ws @ y)" by (metis rev_rev_ident)
  then have x: "x = rev y @ concat (map rev (rev ws))" by (simp add: rev_concat)
  have rs: "set (map rev (rev ws)) \<subseteq> set space_runes"
    using ws by auto
  have ex: "\<exists>ls rs. set ls \<subseteq> set space_runes \<and> set rs \<subseteq> set space_runes \<and>
            buf = concat ls @ TrimSpace buf @ concat rs"
    using ls rs buf x T by (metis append.assoc)
  have nx: "\<forall>w\<in>set space_runes. \<not> prefix w x"
    unfolding x_def using trim_leading_no_space [OF ne] by blast
  have ny: "\<forall>w\<in>set (map rev space_runes). \<not> prefix w y"
    unfolding y_def using trim_leading_no_space [OF ne'] by blast
  have "\<not> prefix w (TrimSpace buf) \<and> \<not> suffix w (TrimSpace buf)" if w: "w \<in> set space_runes" for w
  proof
    show "\<not> prefix w (TrimSpace buf)"
    proof
      assume "prefix w (TrimSpace buf)"
      then have "prefix w x" unfolding T x by (rule prefix_prefix)
      with nx w show False by blast
    qed
    show "\<not> suffix w (TrimSpace buf)"
    proof
      assume "suffix w (TrimSpace buf)"
      then have "prefix (rev w) y" by (simp add: T suffix_to_prefix)
      moreover from w have "rev w \<in> set (map rev space_runes)" by simp
      ultimately show False using ny by blast
    qed
  qed
  with ex show ?thesis by blast
qed

text \<open>
  The script branch when the script ran and its value does not export to a string: the
  error message is built from \<^verbatim>\<open>vmOut.ExportType().Name()\<close>, a method call on the
  \<^verbatim>\<open>reflect.Type\<close> that \<^verbatim>\<open>ExportType\<close> returns, which panics when that is nil.
\<close>

lemma Template_script_not_a_string:
  assumes "Javascript t \<noteq> []"
    and "range_Set L (goja_New L) (range_map h env) = Inr vm"
    and "vm_RunString L h vm (Javascript t) = (Inr vmOut, h1)"
    and "\<forall>s. Export L vmOut \<noteq> GoString s"
  shows "fst (Template L h env t) =
           (case ExportType L vmOut of
              None \<Rightarrow> Panic ''invalid memory address or nil pointer dereference''
            | Some ty \<Rightarrow>
                Return [] (Some (Errorf (''failed to cast output to string; it is of type ''
                                         @ TypeName ty))))"
  using assms by (simp add: Template_def split: any.splits option.splits)

text \<open>\<^verbatim>\<open>strings.Split\<close> gives at least one string, so taking element 0 does not panic.\<close>

lemma Split_newline_not_empty: "Split_newline s \<noteq> []"
  by (induction s) (auto split: list.splits)

text \<open>Two runs of the stand-ins, used below.\<close>

lemma TrimSpace_hello: "TrimSpace (''  Hello Ann  '' @ [CHR 0x0A]) = ''Hello Ann''"
  by code_simp

subsection \<open>The claims\<close>

text \<open>
  C1. Template branch: when serializing the environment fails, the call fails. The code
  drops the error of \<^verbatim>\<open>json.Marshal\<close> (\<^verbatim>\<open>data, _ := json.Marshal(environment)\<close>) and goes on
  to \<^verbatim>\<open>json.Unmarshal(data, &unstructured)\<close>. encoding/json returns no bytes together
  with an error, and rejects the empty input ("unexpected end of JSON input"); these two
  facts about the package are the third and the fourth hypothesis. Template then returns
  the empty string and an error (the parse error if the body does not parse, which is
  checked first, else the error of Unmarshal), and the result is the same whatever
  \<^verbatim>\<open>tpl.Execute\<close> would do: the template is not rendered.
\<close>

theorem Template_marshal_failure:
  assumes "Javascript t = []" and "Template_field t \<noteq> []"
    and "json_Marshal L (range_map h env) = ([], Some merr)"
    and "json_Unmarshal L [] = Inl uerr"
  shows "fst (Template (L\<lparr>tpl_Execute := ex\<rparr>) h env t) =
           Return [] (Some (case tpl_Parse L (Template_field t) of
                              Inl perr \<Rightarrow> perr | Inr tpl \<Rightarrow> uerr))"
  using assms by (simp add: Template_def make_map_def split: sum.splits)

theorem Template_marshal_failure_witness:
  "json_Marshal demo (range_map (heap_of [(''ch'', GoOther Chan)]) (Some 0))
     = ([], Some (LibError ''json: unsupported type: chan int'')) \<and>
   json_Unmarshal demo [] = Inl (LibError ''unexpected end of JSON input'') \<and>
   fst (Template (demo\<lparr>tpl_Execute := (\<lambda>tpl data. (''rendered'', None))\<rparr>)
          (heap_of [(''ch'', GoOther Chan)]) (Some 0)
          \<lparr>Javascript = [], Template_field = hello_body, Expression = []\<rparr>)
     = Return [] (Some (LibError ''unexpected end of JSON input''))"
proof -
  have m: "json_Marshal demo (range_map (heap_of [(''ch'', GoOther Chan)]) (Some 0))
             = ([], Some (LibError ''json: unsupported type: chan int''))"
    by (simp add: demo_def demo_Marshal_def heap_of_def range_map_def)
  have u: "json_Unmarshal demo [] = Inl (LibError ''unexpected end of JSON input'')"
    by (simp add: demo_def demo_Unmarshal_def)
  have b: "Template_field \<lparr>Javascript = [], Template_field = hello_body, Expression = []\<rparr> \<noteq> []"
    by (simp add: hello_body_def)
  have p: "tpl_Parse demo hello_body = Inr hello_body"
    by (simp add: demo_def demo_Parse_def hello_body_def)
  from Template_marshal_failure [OF _ b m u, of "\<lambda>tpl data. (''rendered'', None)"] p m u
  show ?thesis by simp
qed

text \<open>
  C2. First match wins, in the order Javascript, Template, Expression. When the script
  field is not empty, the result is what the script engine gives for that field (the
  binding loop, \<^verbatim>\<open>vm.RunString\<close>, the string test), and it is the same whatever the two
  other fields hold. When the script field is empty and the template field is not, the
  result is what the text template engine gives for the template field (parse, JSON
  round trip, execute, trim), whatever the expression field holds. Only when both are
  empty does the expression engine decide the result.
\<close>

theorem Template_first_match:
  "(Javascript t \<noteq> [] \<longrightarrow>
      Template L h env (t\<lparr>Template_field := a, Expression := b\<rparr>) = Template L h env t \<and>
      fst (Template L h env t) =
        (case range_Set L (goja_New L) (range_map h env) of
           Inl err \<Rightarrow> Return [] (Some err)
         | Inr vm \<Rightarrow>
             (case fst (vm_RunString L h vm (Javascript t)) of
                Inl err \<Rightarrow> Return [] (Some (Wrapf err ''failed to run javascript''))
              | Inr vmOut \<Rightarrow>
                  (case Export L vmOut of
                     GoString s \<Rightarrow> Return s None
                   | _ \<Rightarrow>
                       (case ExportType L vmOut of
                          None \<Rightarrow> Panic ''invalid memory address or nil pointer dereference''
                        | Some ty \<Rightarrow>
                            Return []
                              (Some (Errorf (''failed to cast output to string; it is of type ''
                                             @ TypeName ty)))))))) \<and>
   (Javascript t = [] \<and> Template_field t \<noteq> [] \<longrightarrow>
      Template L h env (t\<lparr>Expression := b\<rparr>) = Template L h env t \<and>
      fst (Template L h env t) =
        (case tpl_Parse L (Template_field t) of
           Inl err \<Rightarrow> Return [] (Some err)
         | Inr tpl \<Rightarrow>
             (case json_Unmarshal L (fst (json_Marshal L (range_map h env))) of
                Inl err \<Rightarrow> Return [] (Some err)
              | Inr decoded \<Rightarrow>
                  (case tpl_Execute L tpl decoded of
                     (buf, Some err) \<Rightarrow>
                       Return []
                         (Some (Errorf (''error executing template ''
                                        @ hd (Split_newline (Template_field t)) @ '': ''
                                        @ Error err)))
                   | (buf, None) \<Rightarrow> Return (TrimSpace buf) None)))) \<and>
   (Javascript t = [] \<and> Template_field t = [] \<and> Expression t \<noteq> [] \<longrightarrow>
      fst (Template L h env t) =
        (case fst (MakeExpressionOptions L h env) of
           Panicked p \<Rightarrow> Panic p
         | Returned opts \<Rightarrow>
             (case expr_Compile L (Expression t) opts of
                Inl err \<Rightarrow> Return [] (Some err)
              | Inr program \<Rightarrow>
                  (case fst (MakeExpressionEnvs L (snd (MakeExpressionOptions L h env)) env) of
                     Panicked p \<Rightarrow> Panic p
                   | Returned envs \<Rightarrow>
                       (case fst (expr_Run L
                                   (snd (MakeExpressionEnvs L (snd (MakeExpressionOptions L h env)) env))
                                   program envs) of
                          Inl err \<Rightarrow> Return [] (Some err)
                        | Inr output \<Rightarrow> Return (Sprint (fmt_other L) output) None)))))"
proof -
  have js: "Javascript (t\<lparr>Template_field := a, Expression := b\<rparr>) = Javascript t"
    and tf: "Template_field (t\<lparr>Expression := b\<rparr>) = Template_field t"
    and js': "Javascript (t\<lparr>Expression := b\<rparr>) = Javascript t"
    by simp_all
  have script: "Javascript t \<noteq> [] \<Longrightarrow>
      Template L h env (t\<lparr>Template_field := a, Expression := b\<rparr>) = Template L h env t"
    unfolding Template_def js by simp
  have template: "Javascript t = [] \<Longrightarrow> Template_field t \<noteq> [] \<Longrightarrow>
      Template L h env (t\<lparr>Expression := b\<rparr>) = Template L h env t"
    unfolding Template_def tf js' by simp
  note line = Split_newline_not_empty [of "Template_field t"]
  show ?thesis
    apply (intro conjI impI)
    subgoal by (rule script)
    subgoal by (simp add: Template_def split: sum.splits prod.splits any.splits option.splits)
    subgoal using template by blast
    subgoal using line
      by (simp add: Template_def make_map_def store_members_def range_map_def Let_def
               split: sum.splits prod.splits option.splits list.splits)
    subgoal by (simp add: Template_def split: sum.splits prod.splits returned.splits)
    done
qed

theorem Template_first_match_witness:
  "Javascript \<lparr>Javascript = ''name'', Template_field = hello_body, Expression = ''a + b''\<rparr> \<noteq> [] \<and>
   fst (Template demo (heap_of [(''name'', GoString ''Ann'')]) (Some 0)
          \<lparr>Javascript = ''name'', Template_field = hello_body, Expression = ''a + b''\<rparr>)
     = Return ''Ann'' None \<and>
   Template_field \<lparr>Javascript = [], Template_field = hello_body, Expression = ''a + b''\<rparr> \<noteq> [] \<and>
   fst (Template demo (heap_of [(''name'', GoString ''Ann'')]) (Some 0)
          \<lparr>Javascript = [], Template_field = hello_body, Expression = ''a + b''\<rparr>)
     = Return ''Hello Ann'' None \<and>
   fst (Template demo (heap_of [(''name'', GoString ''Ann'')]) (Some 0)
          \<lparr>Javascript = [], Template_field = [], Expression = ''a + b''\<rparr>)
     = Return [] (Some (LibError ''invalid operation: +''))"
proof -
  let ?h = "heap_of [(''name'', GoString ''Ann'')]"
  have b: "hello_body \<noteq> []" by (simp add: hello_body_def)
  have 1: "fst (Template demo ?h (Some 0)
                  \<lparr>Javascript = ''name'', Template_field = hello_body, Expression = ''a + b''\<rparr>)
             = Return ''Ann'' None"
    using Template_first_match [of
        "\<lparr>Javascript = ''name'', Template_field = hello_body, Expression = ''a + b''\<rparr>"
        demo ?h "Some 0" "[]" "[]"]
    by (simp add: demo_def demo_Set_def demo_RunString_def demo_Export_def heap_of_def
          range_map_def)
  have 2: "fst (Template demo ?h (Some 0)
                  \<lparr>Javascript = [], Template_field = hello_body, Expression = ''a + b''\<rparr>)
             = Return (TrimSpace (''  Hello Ann  '' @ [CHR 0x0A])) None"
    using Template_first_match [of
        "\<lparr>Javascript = [], Template_field = hello_body, Expression = ''a + b''\<rparr>"
        demo ?h "Some 0" "[]" "[]"] b
    by (simp add: demo_def demo_Parse_def demo_Marshal_def demo_Unmarshal_def demo_Execute_def
          heap_of_def range_map_def Ann_json_def hello_body_def)
  have 3: "fst (Template demo ?h (Some 0)
                  \<lparr>Javascript = [], Template_field = [], Expression = ''a + b''\<rparr>)
             = Return [] (Some (LibError ''invalid operation: +''))"
    using Template_first_match [of
        "\<lparr>Javascript = [], Template_field = [], Expression = ''a + b''\<rparr>"
        demo ?h "Some 0" "[]" "[]"]
    by (simp add: demo_def demo_MakeExpressionOptions_def demo_add_funcs_def demo_Compile_def
          demo_Run_def heap_of_def range_map_def store_members_def Let_def)
  from 2 have t2: "fst (Template demo ?h (Some 0)
                  \<lparr>Javascript = [], Template_field = hello_body, Expression = ''a + b''\<rparr>)
             = Return ''Hello Ann'' None"
    by (simp only: TrimSpace_hello)
  from 1 t2 3 b show ?thesis by simp
qed

text \<open>
  C3. When the three fields of the template specification are empty strings, Template
  returns the empty string and a nil error, whatever the environment and whatever the
  engines would do: none of them is consulted.
\<close>

theorem Template_all_empty:
  assumes "Javascript template = []" and "Template_field template = []"
    and "Expression template = []"
  shows "fst (Template L h environment template) = Return [] None"
  using assms by (simp add: Template_def)

theorem Template_all_empty_witness:
  "fst (Template demo (heap_of [(''name'', GoString ''Ann'')]) (Some 0)
         \<lparr>Javascript = [], Template_field = [], Expression = []\<rparr>) = Return [] None"
  using Template_all_empty [of "\<lparr>Javascript = [], Template_field = [], Expression = []\<rparr>" demo
      "heap_of [(''name'', GoString ''Ann'')]" "Some 0"]
  by simp

text \<open>
  C4. Script branch, the script runs and its value is not a string: Template is to return
  an error that names the exported type, and never the value converted to a string. When
  \<^verbatim>\<open>ExportType\<close> gives a type, the code returns the empty string and such an error
  (\<open>Template_script_not_a_string\<close>). When the value of the script is \<^verbatim>\<open>null\<close> or
  \<^verbatim>\<open>undefined\<close>, goja's \<^verbatim>\<open>ExportType\<close> is \<^verbatim>\<open>reflect.TypeOf(nil)\<close>, the nil
  \<^verbatim>\<open>reflect.Type\<close>, and the call \<^verbatim>\<open>.Name()\<close> on it panics: Template does not return. The
  theorem runs the script \<^verbatim>\<open>null\<close>.
\<close>

theorem Template_null_result_panics:
  "fst (Template demo (heap_of [(''name'', GoString ''Ann'')]) (Some 0)
          \<lparr>Javascript = ''null'', Template_field = [], Expression = []\<rparr>)
     = Panic ''invalid memory address or nil pointer dereference''"
  by (simp add: Template_def demo_def demo_Set_def demo_RunString_def demo_Export_def
        demo_ExportType_def heap_of_def range_map_def)



text \<open>
  C6. Whenever Template returns an error that is not nil, the string it returns is empty.
\<close>

theorem Template_error_empty_string:
  assumes "fst (Template L h env t) = Return s (Some e)"
  shows "s = []"
proof (cases "Javascript t \<noteq> []")
  case True
  with assms show ?thesis
    by (simp add: Template_def split: sum.splits any.splits option.splits prod.splits)
next
  case js: False
  show ?thesis
  proof (cases "Template_field t \<noteq> []")
    case True
    with js assms show ?thesis
      by (simp add: Template_def make_map_def Let_def
               split: sum.splits option.splits prod.splits list.splits)
  next
    case False
    with js assms show ?thesis
      by (simp add: Template_def split: if_splits sum.splits prod.splits returned.splits)
  qed
qed

theorem Template_error_empty_string_witness:
  "fst (Template demo (heap_of [(''name'', GoString ''Ann'')]) (Some 0)
          \<lparr>Javascript = [], Template_field = ''Hi {{.name.first}}'', Expression = []\<rparr>)
     = Return []
         (Some (Errorf (''error executing template Hi {{.name.first}}: ''
                        @ ''can not evaluate field first in type interface {}'')))"
proof -
  have "\<exists>s. fst (Template demo (heap_of [(''name'', GoString ''Ann'')]) (Some 0)
          \<lparr>Javascript = [], Template_field = ''Hi {{.name.first}}'', Expression = []\<rparr>)
     = Return s
         (Some (Errorf (''error executing template Hi {{.name.first}}: ''
                        @ ''can not evaluate field first in type interface {}'')))"
    by (simp add: Template_def demo_def demo_Parse_def demo_Marshal_def demo_Unmarshal_def
          demo_Execute_def heap_of_def range_map_def make_map_def store_members_def
          Ann_json_def hello_body_def)
  then obtain s where s: "fst (Template demo (heap_of [(''name'', GoString ''Ann'')]) (Some 0)
          \<lparr>Javascript = [], Template_field = ''Hi {{.name.first}}'', Expression = []\<rparr>)
     = Return s
         (Some (Errorf (''error executing template Hi {{.name.first}}: ''
                        @ ''can not evaluate field first in type interface {}'')))" ..
  from Template_error_empty_string [OF s] s show ?thesis by simp
qed

text \<open>
  C7. Template branch: when the body parses, the environment goes through JSON and the
  template executes without error, Template returns the buffer that
  \<^verbatim>\<open>tpl.Execute\<close> wrote, trimmed by \<^verbatim>\<open>strings.TrimSpace\<close>, and no error. The trimmed
  string is the buffer without a sequence of white space runes at its start and one at
  its end, and it neither starts nor ends with a white space rune.
\<close>

theorem Template_trims_rendered_buffer:
  assumes "Javascript t = []" and "Template_field t \<noteq> []"
    and "tpl_Parse L (Template_field t) = Inr tpl"
    and "json_Unmarshal L (fst (json_Marshal L (range_map h env))) = Inr decoded"
    and "tpl_Execute L tpl decoded = (buf, None)"
  shows "fst (Template L h env t) = Return (TrimSpace buf) None \<and>
         (\<exists>ls rs. set ls \<subseteq> set space_runes \<and> set rs \<subseteq> set space_runes \<and>
            buf = concat ls @ TrimSpace buf @ concat rs) \<and>
         (\<forall>w\<in>set space_runes. \<not> prefix w (TrimSpace buf) \<and> \<not> suffix w (TrimSpace buf))"
proof -
  have "fst (Template L h env t) = Return (TrimSpace buf) None"
    using assms
    by (simp add: Template_def make_map_def store_members_def range_map_def Let_def)
  with TrimSpace_trimmed [of buf] show ?thesis by simp
qed

theorem Template_trims_rendered_buffer_witness:
  "tpl_Parse demo hello_body = Inr hello_body \<and>
   json_Unmarshal demo
      (fst (json_Marshal demo (range_map (heap_of [(''name'', GoString ''Ann'')]) (Some 0))))
     = Inr [(''name'', GoString ''Ann'')] \<and>
   tpl_Execute demo hello_body [(''name'', GoString ''Ann'')]
     = (''  Hello Ann  '' @ [CHR 0x0A], None) \<and>
   fst (Template demo (heap_of [(''name'', GoString ''Ann'')]) (Some 0)
          \<lparr>Javascript = [], Template_field = hello_body, Expression = []\<rparr>)
     = Return ''Hello Ann'' None"
proof -
  have p: "tpl_Parse demo (Template_field \<lparr>Javascript = [], Template_field = hello_body, Expression = []\<rparr>)
             = Inr hello_body"
    by (simp add: demo_def demo_Parse_def hello_body_def)
  have u: "json_Unmarshal demo
      (fst (json_Marshal demo (range_map (heap_of [(''name'', GoString ''Ann'')]) (Some 0))))
     = Inr [(''name'', GoString ''Ann'')]"
    by (simp add: demo_def demo_Marshal_def demo_Unmarshal_def heap_of_def range_map_def
          Ann_json_def)
  have e: "tpl_Execute demo hello_body [(''name'', GoString ''Ann'')]
     = (''  Hello Ann  '' @ [CHR 0x0A], None)"
    by (simp add: demo_def demo_Execute_def)
  have b: "Template_field \<lparr>Javascript = [], Template_field = hello_body, Expression = []\<rparr> \<noteq> []"
    by (simp add: hello_body_def)
  have t: "TrimSpace (''  Hello Ann  '' @ [CHR 0x0A]) = ''Hello Ann''"
    by code_simp
  from Template_trims_rendered_buffer [OF _ b p u e] have
    "fst (Template demo (heap_of [(''name'', GoString ''Ann'')]) (Some 0)
          \<lparr>Javascript = [], Template_field = hello_body, Expression = []\<rparr>)
     = Return (TrimSpace (''  Hello Ann  '' @ [CHR 0x0A])) None"
    by simp
  with p u e show ?thesis by (simp only: t v1_Template.simps simp_thms)
qed



text \<open>
  With a nil map as environment the first helper panics, and so does Template: there is
  no outcome of compiling or evaluating then.
\<close>

lemma Template_expression_nil_map_panics:
  "fst (Template demo (heap_of []) None
          \<lparr>Javascript = [], Template_field = [], Expression = ''a + b''\<rparr>)
     = Panic ''assignment to entry in nil map''"
  by (simp add: Template_def demo_def demo_MakeExpressionOptions_def demo_add_funcs_def)


text \<open>
  On the script branch the runtime holds the values of the environment, and a script
  writes through the references among them.
\<close>

lemma Template_script_writes_nested_map:
  "objs (snd (Template demo
                \<lparr>objs = (\<lambda>a. None)(0 \<mapsto> [(''inner'', GoOther (MapAt 1))], 1 \<mapsto> []), next_addr = 2\<rparr>
                (Some 0)
                \<lparr>Javascript = ''inner.touched = 1'', Template_field = [], Expression = []\<rparr>)) 1
     = Some [(''touched'', GoInt 1)]"
  by (simp add: Template_def demo_def demo_Set_def demo_RunString_def demo_Export_def
        demo_ExportType_def range_map_def store_members_def)



section \<open>Properties of FetchCosts\<close>

text \<open>
  C10. When the product attributes, the athena configuration and the database handle are
  obtained and \<^verbatim>\<open>QueryRow(...).Scan(...)\<close> returns an error, FetchCosts returns the zero
  \<^verbatim>\<open>periodicCosts\<close> and a nil error, whatever the scan had already written: the error
  is not reported.
\<close>

theorem FetchCosts_scan_failure:
  assumes "getProductAttributes D ci = Return attrs None"
    and "getAWSAthenaConfig D ctx config = Return (Some athenaConf) None"
    and "sql_Open D (athena_DriverName D) (Stringify D athenaConf) = Inr athenaDB"
    and "QueryRow_Scan D athenaDB
           (ReplaceAll costQueryTemplate ''$table''
              (Database (CostReporting config) @ ''.'' @ Table (CostReporting config)))
           [(''id'', ResourceID attrs), (''product_code'', ProductCode attrs)]
           zero_costs = (costs, Some err)"
  shows "FetchCosts D ctx config ci =
           Return \<lparr>Hourly = 0, Daily = 0, Weekly = 0, Monthly = 0\<rparr> None"
  using assms by (simp add: FetchCosts_def zero_costs_def)

theorem FetchCosts_scan_failure_witness:
  "getProductAttributes demo_deps (demo_item ''i-0bad'')
     = Return \<lparr>ResourceID = ''i-0bad'', ProductCode = ''AmazonEC2''\<rparr> None \<and>
   getAWSAthenaConfig demo_deps () demo_aws = Return (Some ''s3://bucket/out'') None \<and>
   sql_Open demo_deps (athena_DriverName demo_deps) (Stringify demo_deps ''s3://bucket/out'') = Inr () \<and>
   QueryRow_Scan demo_deps ()
      (ReplaceAll costQueryTemplate ''$table''
         (Database (CostReporting demo_aws) @ ''.'' @ Table (CostReporting demo_aws)))
      [(''id'', ''i-0bad''), (''product_code'', ''AmazonEC2'')] zero_costs
     = (\<lparr>Hourly = 7, Daily = 0, Weekly = 0, Monthly = 0\<rparr>,
        Some (LibError ''sql: Scan error on column index 1'')) \<and>
   FetchCosts demo_deps () demo_aws (demo_item ''i-0bad'')
     = Return \<lparr>Hourly = 0, Daily = 0, Weekly = 0, Monthly = 0\<rparr> None"
proof -
  have p: "getProductAttributes demo_deps (demo_item ''i-0bad'')
             = Return \<lparr>ResourceID = ''i-0bad'', ProductCode = ''AmazonEC2''\<rparr> None"
    by (simp add: getProductAttributes_def demo_deps_def demo_item_def)
  have c: "getAWSAthenaConfig demo_deps () demo_aws = Return (Some ''s3://bucket/out'') None"
    by (simp add: getAWSAthenaConfig_def demo_deps_def demo_aws_def)
  have o: "sql_Open demo_deps (athena_DriverName demo_deps) (Stringify demo_deps ''s3://bucket/out'')
             = Inr ()"
    by (simp add: demo_deps_def)
  have q: "QueryRow_Scan demo_deps ()
      (ReplaceAll costQueryTemplate ''$table''
         (Database (CostReporting demo_aws) @ ''.'' @ Table (CostReporting demo_aws)))
      [(''id'', ResourceID \<lparr>ResourceID = ''i-0bad'', ProductCode = ''AmazonEC2''\<rparr>),
       (''product_code'', ProductCode \<lparr>ResourceID = ''i-0bad'', ProductCode = ''AmazonEC2''\<rparr>)]
      zero_costs
     = (\<lparr>Hourly = 7, Daily = 0, Weekly = 0, Monthly = 0\<rparr>,
        Some (LibError ''sql: Scan error on column index 1''))"
    by (simp add: demo_deps_def demo_Scan_def zero_costs_def)
  from FetchCosts_scan_failure [OF p c o q] p c o q show ?thesis by simp
qed

end
